theory Spec2Isabelle
  imports Main
begin

section \<open>Values, errors and the external collaborators\<close>

text \<open>
  The JavaScript values that reach \<^verbatim>\<open>rule.js\<close>. Numbers are the integers (priorities are
  integers; fractions are not modelled), \<open>VNaN\<close> is the number \<^verbatim>\<open>NaN\<close>, and an object is
  the list of its own properties. A JavaScript number holds an integer exactly only up to
  \<open>2 ^ 53 - 1\<close> in magnitude; \<open>VNum n\<close> stands for a number of the program only when \<open>n\<close>
  is within that range, and a string is a string of ASCII characters.
\<close>

datatype jsval =
    VUndefined
  | VNull
  | VBool bool
  | VNum int
  | VNaN
  | VStr string
  | VObj "(string \<times> jsval) list"

text \<open>\<^verbatim>\<open>ToBoolean\<close>: what \<^verbatim>\<open>!x\<close>, \<^verbatim>\<open>x || y\<close> and \<^verbatim>\<open>x && y\<close> test.\<close>

fun truthy :: "jsval \<Rightarrow> bool" where
  "truthy VUndefined = False"
| "truthy VNull = False"
| "truthy (VBool b) = b"
| "truthy (VNum n) = (n \<noteq> 0)"
| "truthy VNaN = False"
| "truthy (VStr s) = (s \<noteq> [])"
| "truthy (VObj kvs) = True"

text \<open>
  Every \<^verbatim>\<open>throw\<close> of the file and every failure of a collaborator is a value:
  \<^item> \<open>PriorityError\<close>: \<^verbatim>\<open>Priority must be greater than zero\<close> (line 40);
  \<^item> \<open>ConditionsRootError\<close>: the root lacks both \<^verbatim>\<open>all\<close> and \<^verbatim>\<open>any\<close> (line 51);
  \<^item> \<open>UndefinedFact f\<close>: \<^verbatim>\<open>Undefined fact: f\<close> (line 115), \<open>f\<close> being \<^verbatim>\<open>condition.fact\<close>;
  \<^item> \<open>TypeError\<close>: a property read or a call on \<^verbatim>\<open>undefined\<close>;
  \<^item> \<open>ExternalError\<close>: a rejection or throw of the fact provider or of the condition's
    comparison evaluator.
\<close>

datatype error =
    PriorityError
  | ConditionsRootError
  | UndefinedFact "string option"
  | TypeError
  | ExternalError string

text \<open>
  The operator of a boolean node is one of the two strings \<^verbatim>\<open>'all'\<close> and \<^verbatim>\<open>'any'\<close>; the
  array method that combines a group is \<^verbatim>\<open>Array.prototype.every\<close> or
  \<^verbatim>\<open>Array.prototype.some\<close>.
\<close>

datatype boolop = OpAll | OpAny

datatype arrayMethod = ArrayEvery | ArraySome

text \<open>
  Modelled from the spec: the class \<^verbatim>\<open>Condition\<close> of \<^verbatim>\<open>./condition\<close> is imported by
  \<^verbatim>\<open>rule.js\<close> and is not part of the sources. The consumed shape is the one of the
  specification: a leaf carries \<^verbatim>\<open>fact\<close>, \<^verbatim>\<open>params\<close>, \<^verbatim>\<open>operator\<close>, \<^verbatim>\<open>value\<close> and an
  optional integer \<^verbatim>\<open>priority\<close>; a boolean node carries its operator, the array stored
  under that key, and an optional \<^verbatim>\<open>priority\<close>. An absent \<^verbatim>\<open>priority\<close> is \<open>None\<close>.
\<close>

datatype condition =
    Leaf (cpriority: "int option") string jsval string jsval
  | Node (cpriority: "int option") boolop "condition list"

text \<open>\<^verbatim>\<open>condition.isBooleanOperator()\<close>.\<close>

fun isBooleanOperator :: "condition \<Rightarrow> bool" where
  "isBooleanOperator (Node p operator subConditions) = True"
| "isBooleanOperator (Leaf p f ps opr v) = False"

text \<open>\<^verbatim>\<open>condition.fact\<close>: a boolean node has no such property, the read gives \<^verbatim>\<open>undefined\<close>.\<close>

fun cfact :: "condition \<Rightarrow> string option" where
  "cfact (Leaf p f ps opr v) = Some f"
| "cfact (Node p operator subConditions) = None"

text \<open>
  \<^verbatim>\<open>condition.evaluate(comparisonValue)\<close> is a method of the absent class as well. The
  functions below take it as the parameter \<open>ce\<close>: it receives the condition and the
  comparison value, and returns a value or throws.
\<close>

type_synonym conditionEvaluate = "condition \<Rightarrow> jsval \<Rightarrow> error + jsval"

text \<open>
  The fact provider (\<^verbatim>\<open>this.engine\<close>), consumed through two methods.
  \<^verbatim>\<open>getFact(name)\<close> returns the registered fact, an object with an integer
  \<^verbatim>\<open>priority\<close>, or \<^verbatim>\<open>undefined\<close>; \<^verbatim>\<open>factValue(name, params)\<close> returns a promise
  that resolves with the value or rejects.
\<close>

record fact =
  fact_priority :: int

record engine =
  getFact :: "string option \<Rightarrow> fact option"
  factValue :: "string \<Rightarrow> jsval \<Rightarrow> error + jsval"

section \<open>The Rule object and its configuration\<close>

type_synonym jsobject = "(string \<times> jsval) list"

record rule =
  priority :: jsval
  conditions :: "condition option"
  event :: "jsobject option"
  engine :: "engine option"

text \<open>The object \<^verbatim>\<open>new\<close> hands to the constructor: no property is set yet.\<close>

definition emptyRule :: rule where
  "emptyRule = \<lparr>priority = VUndefined, conditions = None, event = None, engine = None\<rparr>"

subsection \<open>\<^verbatim>\<open>parseInt(x, 10)\<close>\<close>

text \<open>
  \<^verbatim>\<open>parseInt\<close> converts its argument to a string, skips leading white space, reads an
  optional sign and the longest prefix of decimal digits; with no digit the result is
  \<^verbatim>\<open>NaN\<close>. The string of an integer is its decimal numeral, which reads back as the same
  integer; the strings of \<^verbatim>\<open>undefined\<close>, \<^verbatim>\<open>null\<close>, the booleans, \<^verbatim>\<open>NaN\<close> and an object
  start with no digit. The definition is the program's \<^verbatim>\<open>parseInt\<close> on the values of the
  range given above only: a number from \<open>10 ^ 21\<close> on prints in exponent notation and reads
  back as its first digit, digits that denote an integer beyond \<open>2 ^ 53\<close> are rounded, and
  the white space of the program includes characters outside ASCII. The sign of the result
  and whether it is \<^verbatim>\<open>NaN\<close> are the same in both.
\<close>

definition isWhiteSpace :: "char \<Rightarrow> bool" where
  "isWhiteSpace c = (c \<in> set [CHR 0x20, CHR 0x09, CHR 0x0A, CHR 0x0B, CHR 0x0C, CHR 0x0D])"

definition digitValue :: "char \<Rightarrow> int option" where
  "digitValue = map_of
     [(CHR ''0'', 0), (CHR ''1'', 1), (CHR ''2'', 2), (CHR ''3'', 3), (CHR ''4'', 4),
      (CHR ''5'', 5), (CHR ''6'', 6), (CHR ''7'', 7), (CHR ''8'', 8), (CHR ''9'', 9)]"

fun readDigits :: "int option \<Rightarrow> string \<Rightarrow> int option" where
  "readDigits acc [] = acc"
| "readDigits acc (c # cs) =
     (case digitValue c of
        None \<Rightarrow> acc
      | Some d \<Rightarrow> readDigits (Some (10 * (case acc of None \<Rightarrow> 0 | Some a \<Rightarrow> a) + d)) cs)"

definition parseIntString :: "string \<Rightarrow> jsval" where
  "parseIntString s =
     (let t = dropWhile isWhiteSpace s;
          neg = (t \<noteq> [] \<and> hd t = CHR ''-'');
          u = (if t \<noteq> [] \<and> (hd t = CHR ''-'' \<or> hd t = CHR ''+'') then tl t else t)
      in case readDigits None u of
           None \<Rightarrow> VNaN
         | Some n \<Rightarrow> VNum (if neg then - n else n))"

fun parseInt :: "jsval \<Rightarrow> jsval" where
  "parseInt (VNum n) = VNum n"
| "parseInt (VStr s) = parseIntString s"
| "parseInt v = VNaN"

text \<open>\<^verbatim>\<open>x <= 0\<close> on the result of \<^verbatim>\<open>parseInt\<close>: every comparison with \<^verbatim>\<open>NaN\<close> is false.\<close>

fun lessEqualZero :: "jsval \<Rightarrow> bool" where
  "lessEqualZero (VNum n) = (n \<le> 0)"
| "lessEqualZero v = False"

subsection \<open>The setters and the constructor\<close>

definition setPriority :: "rule \<Rightarrow> jsval \<Rightarrow> error + rule" where
  "setPriority this p =
     (let p' = parseInt p
      in if lessEqualZero p' then Inl PriorityError
         else Inr (this\<lparr>priority := p'\<rparr>))"

text \<open>
  \<^verbatim>\<open>setConditions\<close> requires an own property \<^verbatim>\<open>all\<close> or \<^verbatim>\<open>any\<close> at the root, which a
  boolean node has and a leaf has not, and then wraps the tree with \<^verbatim>\<open>new Condition\<close>
  (absent; the tree is taken as already being in the consumed shape).
\<close>

definition setConditions :: "rule \<Rightarrow> condition \<Rightarrow> error + rule" where
  "setConditions this c =
     (if \<not> isBooleanOperator c then Inl ConditionsRootError
      else Inr (this\<lparr>conditions := Some c\<rparr>))"

text \<open>
  \<^verbatim>\<open>params(event).only(['type', 'params'])\<close> builds a new object from the named
  properties that the event has, in the order of the names.
\<close>

definition only :: "string list \<Rightarrow> jsobject \<Rightarrow> jsobject" where
  "only keys obj =
     concat (map (\<lambda>k. case map_of obj k of None \<Rightarrow> [] | Some v \<Rightarrow> [(k, v)]) keys)"

definition setEvent :: "rule \<Rightarrow> jsobject \<Rightarrow> rule" where
  "setEvent this ev = this\<lparr>event := Some (only [''type'', ''params''] ev)\<rparr>"

definition setEngine :: "rule \<Rightarrow> engine \<Rightarrow> rule" where
  "setEngine this eng = this\<lparr>engine := Some eng\<rparr>"

text \<open>
  The options object, after \<^verbatim>\<open>JSON.parse\<close> when it came as a string. A missing
  \<^verbatim>\<open>priority\<close> reads as \<^verbatim>\<open>undefined\<close>; \<^verbatim>\<open>new Rule()\<close> passes no options at all.
\<close>

record options =
  opt_conditions :: "condition option"
  opt_priority :: jsval
  opt_event :: "jsobject option"

definition constructor :: "options option \<Rightarrow> error + rule" where
  "constructor opts =
     (case (case opts of
              Some o1 \<Rightarrow> (case opt_conditions o1 of
                            Some c \<Rightarrow> setConditions emptyRule c
                          | None \<Rightarrow> Inr emptyRule)
            | None \<Rightarrow> Inr emptyRule) of
        Inl e \<Rightarrow> Inl e
      | Inr this1 \<Rightarrow>
          (let p0 = (case opts of Some o1 \<Rightarrow> opt_priority o1 | None \<Rightarrow> VUndefined);
               p = (if truthy p0 then p0 else VNum 1)
           in case setPriority this1 p of
                Inl e \<Rightarrow> Inl e
              | Inr this2 \<Rightarrow>
                  (let ev = (case (case opts of Some o1 \<Rightarrow> opt_event o1 | None \<Rightarrow> None) of
                               Some ev0 \<Rightarrow> ev0
                             | None \<Rightarrow> [(''type'', VStr ''unknown'')])
                   in Inr (setEvent this2 ev))))"

section \<open>Priority grouping: \<^verbatim>\<open>prioritizeConditions\<close>\<close>

text \<open>
  Lines 111 to 118, the priority of one condition. \<^verbatim>\<open>if (!priority)\<close> is a test for a
  falsy value: an absent priority and the priority \<open>0\<close> both take the branch that asks
  the fact provider. With no engine attached the read \<^verbatim>\<open>this.engine.getFact\<close> is a
  \<^verbatim>\<open>TypeError\<close>.
\<close>

definition truthyPriority :: "condition \<Rightarrow> int option" where
  "truthyPriority c =
     (case cpriority c of
        None \<Rightarrow> None
      | Some p \<Rightarrow> if p = 0 then None else Some p)"

definition conditionPriority :: "rule \<Rightarrow> condition \<Rightarrow> error + int" where
  "conditionPriority this c =
     (case truthyPriority c of
        Some p \<Rightarrow> Inr p
      | None \<Rightarrow>
          (case engine this of
             None \<Rightarrow> Inl TypeError
           | Some eng \<Rightarrow>
               (case getFact eng (cfact c) of
                  None \<Rightarrow> Inl (UndefinedFact (cfact c))
                | Some fct \<Rightarrow> Inr (fact_priority fct))))"

text \<open>
  The accumulator \<^verbatim>\<open>sets\<close> of the \<^verbatim>\<open>reduce\<close> is an object whose keys are the priorities
  met so far, each holding the array of its conditions: an association list, a key
  entering at its first condition. Lines 119 and 120 create the array when the key is new
  and push the condition at its end.
\<close>

type_synonym factSets = "(int \<times> condition list) list"

fun push :: "int \<Rightarrow> condition \<Rightarrow> factSets \<Rightarrow> factSets" where
  "push p c [] = [(p, [c])]"
| "push p c ((q, cs) # sets) =
     (if q = p then (q, cs @ [c]) # sets else (q, cs) # push p c sets)"

fun reduceSets :: "rule \<Rightarrow> factSets \<Rightarrow> condition list \<Rightarrow> error + factSets" where
  "reduceSets this sets [] = Inr sets"
| "reduceSets this sets (c # cs) =
     (case conditionPriority this c of
        Inl e \<Rightarrow> Inl e
      | Inr p \<Rightarrow> reduceSets this (push p c sets) cs)"

text \<open>
  Line 124, the comparison function handed to \<^verbatim>\<open>sort\<close>: negative when the first key is
  the greater number. The keys of an object are distinct, so on them the function is a
  strict total order and every sorting algorithm returns the same array; it is written
  here as an insertion sort driven by the comparison function.
\<close>

definition compareFn :: "int \<Rightarrow> int \<Rightarrow> int" where
  "compareFn a b = (if a > b then - 1 else 1)"

fun insertBy :: "('a \<Rightarrow> 'a \<Rightarrow> int) \<Rightarrow> 'a \<Rightarrow> 'a list \<Rightarrow> 'a list" where
  "insertBy cmp x [] = [x]"
| "insertBy cmp x (y # ys) =
     (if cmp x y < 0 then x # y # ys else y # insertBy cmp x ys)"

fun sortBy :: "('a \<Rightarrow> 'a \<Rightarrow> int) \<Rightarrow> 'a list \<Rightarrow> 'a list" where
  "sortBy cmp [] = []"
| "sortBy cmp (x # xs) = insertBy cmp x (sortBy cmp xs)"

text \<open>\<^verbatim>\<open>factSets[priority]\<close> for a key of the object.\<close>

fun setOf :: "factSets \<Rightarrow> int \<Rightarrow> condition list" where
  "setOf [] p = []"
| "setOf ((q, cs) # sets) p = (if q = p then cs else setOf sets p)"

definition prioritizeConditions :: "rule \<Rightarrow> condition list \<Rightarrow> error + condition list list" where
  "prioritizeConditions this conds =
     (case reduceSets this [] conds of
        Inl e \<Rightarrow> Inl e
      | Inr sets \<Rightarrow> Inr (map (setOf sets) (sortBy compareFn (map fst sets))))"

section \<open>Evaluation\<close>

text \<open>
  An asynchronous call is modelled by how its promise settles (\<open>Inl\<close>: rejected) together
  with the list of the fact lookups, \<^verbatim>\<open>engine.factValue(fact, params)\<close>, that the call
  initiates at any time, also after it has settled. Conditions of one group run
  concurrently: the program looks the leaves of a group up while it maps over the array
  and reaches the lookups of a nested node later, and \<^verbatim>\<open>Promise.all\<close> rejects with the
  rejection that comes first in time. The list holds the lookups of a group in the order
  of the conditions and the model reports the leftmost rejection; which lookups are
  initiated, and whether the call resolves or rejects, do not depend on that choice.
\<close>

type_synonym lookup = "string \<times> jsval"

type_synonym 'a outcome = "(error + 'a) \<times> lookup list"

text \<open>
  \<^verbatim>\<open>Promise.all\<close>: the array of the values when every promise resolves, a rejection when
  one rejects (the model reports the leftmost one).
\<close>

fun promiseAll :: "(error + 'a) list \<Rightarrow> error + 'a list" where
  "promiseAll [] = Inr []"
| "promiseAll (Inl e # rs) = Inl e"
| "promiseAll (Inr v # rs) = (case promiseAll rs of Inl e \<Rightarrow> Inl e | Inr vs \<Rightarrow> Inr (v # vs))"

text \<open>Line 140: \<^verbatim>\<open>method.call(conditionResults, (result) => result === true)\<close>.\<close>

fun callMethod :: "arrayMethod \<Rightarrow> jsval list \<Rightarrow> bool" where
  "callMethod ArrayEvery results = list_all (\<lambda>result. result = VBool True) results"
| "callMethod ArraySome results = list_ex (\<lambda>result. result = VBool True) results"

text \<open>
  \<^verbatim>\<open>evaluateConditions\<close> (lines 134 to 141). The parameter \<open>ev\<close> stands for the method
  \<^verbatim>\<open>this.evaluateCondition\<close>, which the three functions of this section reach through
  \<^verbatim>\<open>this\<close>; \<open>evaluateCondition\<close> below closes the recursion. Every condition of the array
  is started by the \<^verbatim>\<open>map\<close>, whatever the other ones do. The argument is always an array
  here, so line 135 changes nothing.
\<close>

definition evaluateConditions ::
  "(condition \<Rightarrow> jsval outcome) \<Rightarrow> condition list \<Rightarrow> arrayMethod \<Rightarrow> bool outcome" where
  "evaluateConditions ev conds method =
     (let started = map ev conds;
          lookups = concat (map snd started)
      in case promiseAll (map fst started) of
           Inl e \<Rightarrow> (Inl e, lookups)
         | Inr conditionResults \<Rightarrow> (Inr (callMethod method conditionResults), lookups))"

text \<open>
  The chain of \<^verbatim>\<open>then\<close> callbacks that \<^verbatim>\<open>forEach\<close> builds on \<^verbatim>\<open>cursor\<close> (lines 160 to
  179), one callback for each set, run in order with the value the previous one resolved
  with; a rejection skips the callbacks that remain. Line 161 declares a variable
  \<^verbatim>\<open>stop\<close> for each set, \<^verbatim>\<open>false\<close>; only the callback of that set reads or writes it, and
  the callback runs once, so the assignments of lines 166 and 173 are never read.
\<close>

fun thenChain ::
  "(condition \<Rightarrow> jsval outcome) \<Rightarrow> boolop \<Rightarrow> arrayMethod \<Rightarrow> jsval \<Rightarrow> condition list list
     \<Rightarrow> jsval outcome" where
  "thenChain ev operator method setResult [] = (Inr setResult, [])"
| "thenChain ev operator method setResult (s # orderedSets) =
     (let stop = False
      in if (operator = OpAny \<and> setResult = VBool True) \<or> stop
         then thenChain ev operator method (VBool True) orderedSets
         else if (operator = OpAll \<and> setResult = VBool False) \<or> stop
         then thenChain ev operator method (VBool False) orderedSets
         else (case evaluateConditions ev s method of
                 (Inl e, lookups) \<Rightarrow> (Inl e, lookups)
               | (Inr b, lookups) \<Rightarrow>
                   (case thenChain ev operator method (VBool b) orderedSets of
                      (r, lookups') \<Rightarrow> (r, lookups @ lookups'))))"

text \<open>
  \<^verbatim>\<open>prioritizeAndRun\<close> (lines 153 to 181). A throw of \<^verbatim>\<open>prioritizeConditions\<close> rejects the
  promise of the asynchronous function before the chain is built. \<^verbatim>\<open>Promise.resolve()\<close>
  resolves with \<^verbatim>\<open>undefined\<close>. Lines 154 to 157 choose the array method: \<^verbatim>\<open>every\<close> for
  \<^verbatim>\<open>'all'\<close>, \<^verbatim>\<open>some\<close> otherwise.
\<close>

definition methodFor :: "boolop \<Rightarrow> arrayMethod" where
  "methodFor operator = (if operator = OpAll then ArrayEvery else ArraySome)"

definition prioritizeAndRun ::
  "(condition \<Rightarrow> jsval outcome) \<Rightarrow> rule \<Rightarrow> condition list \<Rightarrow> boolop \<Rightarrow> jsval outcome" where
  "prioritizeAndRun ev this conds operator =
     (let method = methodFor operator
      in case prioritizeConditions this conds of
           Inl e \<Rightarrow> (Inl e, [])
         | Inr orderedSets \<Rightarrow> thenChain ev operator method VUndefined orderedSets)"

subsection \<open>The groups hold conditions of the array\<close>

text \<open>
  What the grouping returns is made of the conditions it was given; the recursion of
  \<open>evaluateCondition\<close> through \<open>prioritizeAndRun\<close> therefore descends into the children of
  a node only.
\<close>

lemma setOf_push:
  "setOf (push p c sets) k = (if k = p then setOf sets p @ [c] else setOf sets k)"
  by (induction p c sets rule: push.induct) auto

lemma keys_push: "fst ` set (push p c sets) = insert p (fst ` set sets)"
  by (induction p c sets rule: push.induct) (simp_all add: insert_commute)

lemma distinct_push: "distinct (map fst (push p c sets)) = distinct (map fst sets)"
  by (induction p c sets rule: push.induct) (simp_all add: keys_push)

lemma reduceSets_setOf:
  "reduceSets this sets cs = Inr sets' \<Longrightarrow>
     setOf sets' k = setOf sets k @ filter (\<lambda>c. conditionPriority this c = Inr k) cs"
proof (induction cs arbitrary: sets)
  case Nil
  then show ?case by simp
next
  case (Cons c cs)
  then show ?case
    by (auto simp: setOf_push split: sum.splits)
qed

lemma reduceSets_keys:
  "reduceSets this sets cs = Inr sets' \<Longrightarrow>
     fst ` set sets' = fst ` set sets \<union> {p. \<exists>c\<in>set cs. conditionPriority this c = Inr p}"
proof (induction cs arbitrary: sets)
  case Nil
  then show ?case by simp
next
  case (Cons c cs)
  from Cons.prems obtain p where p: "conditionPriority this c = Inr p"
    and r: "reduceSets this (push p c sets) cs = Inr sets'"
    by (auto split: sum.splits)
  show ?case
    using Cons.IH [OF r] p by (auto simp: keys_push)
qed

lemma reduceSets_distinct:
  "reduceSets this sets cs = Inr sets' \<Longrightarrow> distinct (map fst sets) \<Longrightarrow> distinct (map fst sets')"
proof (induction cs arbitrary: sets)
  case Nil
  then show ?case by simp
next
  case (Cons c cs)
  then show ?case
    by (auto simp: distinct_push split: sum.splits)
qed

lemma prioritizeConditions_groups:
  assumes "prioritizeConditions this cs = Inr groups"
  shows "\<exists>ks. groups = map (\<lambda>k. filter (\<lambda>c. conditionPriority this c = Inr k) cs) ks"
proof -
  from assms obtain sets where r: "reduceSets this [] cs = Inr sets"
    and g: "groups = map (setOf sets) (sortBy compareFn (map fst sets))"
    by (auto simp: prioritizeConditions_def split: sum.splits)
  have "setOf sets k = filter (\<lambda>c. conditionPriority this c = Inr k) cs" for k
    using reduceSets_setOf [OF r, of k] by simp
  with g show ?thesis
    by (intro exI [of _ "sortBy compareFn (map fst sets)"]) simp
qed

lemma prioritizeConditions_subset:
  "prioritizeConditions this cs = Inr groups \<Longrightarrow> g \<in> set groups \<Longrightarrow> c \<in> set g \<Longrightarrow> c \<in> set cs"
  by (drule prioritizeConditions_groups) auto

lemma evaluateConditions_cong:
  "(\<And>c. c \<in> set cs \<Longrightarrow> ev c = ev' c) \<Longrightarrow> evaluateConditions ev cs m = evaluateConditions ev' cs m"
proof -
  assume "\<And>c. c \<in> set cs \<Longrightarrow> ev c = ev' c"
  then have "map ev cs = map ev' cs" by simp
  then show ?thesis by (simp only: evaluateConditions_def)
qed

lemma thenChain_cong:
  "(\<And>s c. s \<in> set sets \<Longrightarrow> c \<in> set s \<Longrightarrow> ev c = ev' c) \<Longrightarrow>
     thenChain ev operator m acc sets = thenChain ev' operator m acc sets"
proof (induction sets arbitrary: acc)
  case Nil
  then show ?case by simp
next
  case (Cons s sets)
  have e: "evaluateConditions ev s m = evaluateConditions ev' s m"
    by (rule evaluateConditions_cong) (rule Cons.prems, simp_all)
  have t: "\<And>acc. thenChain ev operator m acc sets = thenChain ev' operator m acc sets"
    by (rule Cons.IH) (rule Cons.prems, simp_all)
  show ?case by (simp only: thenChain.simps e t)
qed

lemma prioritizeAndRun_cong [fundef_cong]:
  assumes "this = this'" "cs = cs'" "operator = operator'"
    and "\<And>c. c \<in> set cs' \<Longrightarrow> ev c = ev' c"
  shows "prioritizeAndRun ev this cs operator = prioritizeAndRun ev' this' cs' operator'"
proof (cases "prioritizeConditions this' cs'")
  case (Inl e)
  with assms show ?thesis by (simp add: prioritizeAndRun_def)
next
  case (Inr groups)
  have "\<And>m acc. thenChain ev operator' m acc groups = thenChain ev' operator' m acc groups"
    by (rule thenChain_cong) (use Inr assms(4) prioritizeConditions_subset in blast)
  with Inr assms show ?thesis by (simp add: prioritizeAndRun_def)
qed

subsection \<open>\<^verbatim>\<open>evaluateCondition\<close>, \<^verbatim>\<open>any\<close>, \<^verbatim>\<open>all\<close>, \<^verbatim>\<open>evaluate\<close>\<close>

text \<open>
  Lines 83 to 97. A boolean node awaits \<^verbatim>\<open>this[condition.operator](subConditions)\<close>, that
  is \<^verbatim>\<open>this.any\<close> or \<^verbatim>\<open>this.all\<close>, both of which call \<^verbatim>\<open>prioritizeAndRun\<close> with their
  own name; a leaf awaits \<^verbatim>\<open>this.engine.factValue\<close>, the call being made when the
  condition is started. Line 92 then hands the awaited value to \<^verbatim>\<open>condition.evaluate\<close>,
  for both kinds of condition.
\<close>

fun evaluateCondition :: "conditionEvaluate \<Rightarrow> rule \<Rightarrow> condition \<Rightarrow> jsval outcome" where
  "evaluateCondition ce this (Node p operator subConditions) =
     (case prioritizeAndRun (evaluateCondition ce this) this subConditions operator of
        (Inl e, lookups) \<Rightarrow> (Inl e, lookups)
      | (Inr comparisonValue, lookups) \<Rightarrow>
          (ce (Node p operator subConditions) comparisonValue, lookups))"
| "evaluateCondition ce this (Leaf p f ps opr v) =
     (case engine this of
        None \<Rightarrow> (Inl TypeError, [])
      | Some eng \<Rightarrow>
          (case factValue eng f ps of
             Inl e \<Rightarrow> (Inl e, [(f, ps)])
           | Inr comparisonValue \<Rightarrow> (ce (Leaf p f ps opr v) comparisonValue, [(f, ps)])))"


definition any :: "conditionEvaluate \<Rightarrow> rule \<Rightarrow> condition list \<Rightarrow> jsval outcome" where
  "any ce this conds = prioritizeAndRun (evaluateCondition ce this) this conds OpAny"

definition all :: "conditionEvaluate \<Rightarrow> rule \<Rightarrow> condition list \<Rightarrow> jsval outcome" where
  "all ce this conds = prioritizeAndRun (evaluateCondition ce this) this conds OpAll"

text \<open>
  \<^verbatim>\<open>evaluate\<close> (lines 205 to 211). With no conditions set, \<^verbatim>\<open>this.conditions.any\<close> is a
  read on \<^verbatim>\<open>undefined\<close>. A root that is a leaf has neither key, and \<^verbatim>\<open>this.all\<close> is
  called with \<^verbatim>\<open>undefined\<close>, whose \<^verbatim>\<open>reduce\<close> is a \<^verbatim>\<open>TypeError\<close> again.
\<close>

definition evaluate :: "conditionEvaluate \<Rightarrow> rule \<Rightarrow> jsval outcome" where
  "evaluate ce this =
     (case conditions this of
        None \<Rightarrow> (Inl TypeError, [])
      | Some (Node p OpAny conds) \<Rightarrow> any ce this conds
      | Some (Node p OpAll conds) \<Rightarrow> all ce this conds
      | Some (Leaf p f ps opr v) \<Rightarrow> (Inl TypeError, []))"

section \<open>Definitions used to state the properties\<close>

text \<open>
  The priority of a condition as the specification words it: the condition's own priority
  if present, otherwise the registered priority of its fact. It differs from
  \<open>conditionPriority\<close> on a condition whose own priority is \<open>0\<close>.
\<close>

definition specEffectivePriority :: "rule \<Rightarrow> condition \<Rightarrow> error + int" where
  "specEffectivePriority this c =
     (case cpriority c of
        Some p \<Rightarrow> Inr p
      | None \<Rightarrow>
          (case engine this of
             None \<Rightarrow> Inl TypeError
           | Some eng \<Rightarrow>
               (case getFact eng (cfact c) of
                  None \<Rightarrow> Inl (UndefinedFact (cfact c))
                | Some fct \<Rightarrow> Inr (fact_priority fct))))"

text \<open>
  Two fact providers give the same answers on a condition tree: the same registered fact
  for every name the tree asks \<^verbatim>\<open>getFact\<close> about, and the same resolved value for every
  lookup a leaf of the tree makes. Nothing is said about other facts.
\<close>

fun unchangedOn :: "engine \<Rightarrow> engine \<Rightarrow> condition \<Rightarrow> bool" where
  "unchangedOn e1 e2 (Leaf p f ps opr v) =
     (getFact e1 (Some f) = getFact e2 (Some f) \<and> factValue e1 f ps = factValue e2 f ps)"
| "unchangedOn e1 e2 (Node p operator subConditions) =
     (getFact e1 None = getFact e2 None \<and> list_all (unchangedOn e1 e2) subConditions)"

subsection \<open>Concrete collaborators for the examples\<close>

text \<open>\<^verbatim>\<open>condition.value\<close>: the stored value of a leaf; a boolean node has none.\<close>

fun cvalue :: "condition \<Rightarrow> jsval" where
  "cvalue (Leaf p f ps opr v) = v"
| "cvalue (Node p operator subConditions) = VUndefined"

text \<open>
  Three comparison evaluators. \<open>equalEvaluate\<close> is a comparison against the stored value
  (\<^verbatim>\<open>comparisonValue === this.value\<close>) and nothing else; \<open>booleanEvaluate\<close> is the same
  on a leaf and \<^verbatim>\<open>comparisonValue === true\<close> on a boolean node; \<open>valueEvaluate\<close> returns
  the comparison value itself, which need not be a boolean.
\<close>

definition equalEvaluate :: conditionEvaluate where
  "equalEvaluate c comparisonValue = Inr (VBool (comparisonValue = cvalue c))"

definition booleanEvaluate :: conditionEvaluate where
  "booleanEvaluate c comparisonValue =
     (if isBooleanOperator c then Inr (VBool (comparisonValue = VBool True))
      else equalEvaluate c comparisonValue)"

definition valueEvaluate :: conditionEvaluate where
  "valueEvaluate c comparisonValue = Inr comparisonValue"

text \<open>
  A fact provider given by a table of names with their priority and value, and a rule
  attached to it.
\<close>

definition tableEngine :: "(string \<times> int \<times> jsval) list \<Rightarrow> engine" where
  "tableEngine facts =
     \<lparr>getFact = (\<lambda>name. case name of
                         None \<Rightarrow> None
                       | Some n \<Rightarrow> map_option (\<lambda>pv. \<lparr>fact_priority = fst pv\<rparr>) (map_of facts n)),
      factValue = (\<lambda>n ps. case map_of facts n of
                             None \<Rightarrow> Inl (ExternalError n)
                           | Some pv \<Rightarrow> Inr (snd pv))\<rparr>"

definition ruleOn :: "(string \<times> int \<times> jsval) list \<Rightarrow> rule" where
  "ruleOn facts = setEngine (emptyRule\<lparr>priority := VNum 1\<rparr>) (tableEngine facts)"

text \<open>A leaf that tests fact \<open>f\<close> for equality with \<open>v\<close>, with no priority of its own.\<close>

definition leafEq :: "string \<Rightarrow> jsval \<Rightarrow> condition" where
  "leafEq f v = Leaf None f VUndefined ''equal'' v"

definition factsABC :: "(string \<times> int \<times> jsval) list" where
  "factsABC = [(''a'', 3, VBool True), (''b'', 2, VBool True), (''c'', 1, VBool True)]"

section \<open>Properties of the grouping\<close>

lemmas example_defs =
  prioritizeConditions_def prioritizeAndRun_def evaluateConditions_def methodFor_def
  compareFn_def conditionPriority_def truthyPriority_def ruleOn_def tableEngine_def
  setEngine_def emptyRule_def leafEq_def factsABC_def booleanEvaluate_def equalEvaluate_def
  valueEvaluate_def any_def all_def evaluate_def

lemma set_insertBy: "set (insertBy cmp x ys) = insert x (set ys)"
  by (induction ys) auto

lemma set_sortBy: "set (sortBy cmp xs) = set xs"
  by (induction xs) (simp_all add: set_insertBy)

lemma sorted_insertBy:
  "sorted_wrt (>) ys \<Longrightarrow> x \<notin> set ys \<Longrightarrow> sorted_wrt (>) (insertBy compareFn x ys)"
proof (induction ys)
  case Nil
  then show ?case by simp
next
  case (Cons y ys)
  then show ?case
    by (auto simp: compareFn_def set_insertBy split: if_splits)
qed

lemma sorted_sortBy: "distinct xs \<Longrightarrow> sorted_wrt (>) (sortBy compareFn xs)"
  by (induction xs) (simp_all add: sorted_insertBy set_sortBy)

text \<open>
  Apart from an own priority of \<open>0\<close>, the priority that line 111 to 118 compute is the
  one the specification words.
\<close>

lemma conditionPriority_eq_spec:
  "cpriority c \<noteq> Some 0 \<Longrightarrow> conditionPriority this c = specEffectivePriority this c"
  by (cases "cpriority c")
     (simp_all add: conditionPriority_def specEffectivePriority_def truthyPriority_def)

text \<open>
  Whenever \<open>prioritizeConditions\<close> returns, its groups are given by a strictly descending
  list of integers, the priorities that lines 111 to 118 compute, compared as numbers; the
  group of a priority holds the conditions of that priority, in the order of the array.
\<close>

lemma prioritizeConditions_groups_by_priority:
  assumes "prioritizeConditions this conds = Inr groups"
  shows "\<exists>ks. sorted_wrt (>) ks \<and>
           set ks = {p. \<exists>c\<in>set conds. conditionPriority this c = Inr p} \<and>
           groups = map (\<lambda>k. filter (\<lambda>c. conditionPriority this c = Inr k) conds) ks"
proof -
  from assms obtain sets where r: "reduceSets this [] conds = Inr sets"
    and g: "groups = map (setOf sets) (sortBy compareFn (map fst sets))"
    by (auto simp: prioritizeConditions_def split: sum.splits)
  let ?ks = "sortBy compareFn (map fst sets)"
  have d: "distinct (map fst sets)"
    using reduceSets_distinct [OF r] by simp
  have s: "sorted_wrt (>) ?ks"
    using d by (rule sorted_sortBy)
  have k: "set ?ks = {p. \<exists>c\<in>set conds. conditionPriority this c = Inr p}"
    using reduceSets_keys [OF r] by (simp add: set_sortBy)
  have "setOf sets k = filter (\<lambda>c. conditionPriority this c = Inr k) conds" for k
    using reduceSets_setOf [OF r, of k] by simp
  then have "groups = map (\<lambda>k. filter (\<lambda>c. conditionPriority this c = Inr k) conds) ?ks"
    using g by simp
  with s k show ?thesis by blast
qed

text \<open>
  The grouping in the words of the specification, on the arrays where the falsy test of
  line 112 plays no part. When no condition of the array has the own priority \<open>0\<close> and
  \<open>prioritizeConditions\<close> returns, the groups are keyed by the effective priority (the
  condition's own priority if present, otherwise the registered priority of its fact), in
  strictly descending order of the keys compared as numbers, and each group keeps its
  conditions in the order of the array.
\<close>

theorem prioritizeConditions_groups_descending:
  assumes "prioritizeConditions this conds = Inr groups"
    and "\<forall>c\<in>set conds. cpriority c \<noteq> Some 0"
  shows "\<exists>ks. sorted_wrt (>) ks \<and>
           set ks = {p. \<exists>c\<in>set conds. specEffectivePriority this c = Inr p} \<and>
           groups = map (\<lambda>k. filter (\<lambda>c. specEffectivePriority this c = Inr k) conds) ks"
proof -
  from prioritizeConditions_groups_by_priority [OF assms(1)]
  obtain ks where s: "sorted_wrt (>) ks"
    and k: "set ks = {p. \<exists>c\<in>set conds. conditionPriority this c = Inr p}"
    and g: "groups = map (\<lambda>k. filter (\<lambda>c. conditionPriority this c = Inr k) conds) ks"
    by blast
  have eq: "conditionPriority this c = specEffectivePriority this c" if "c \<in> set conds" for c
    using assms(2) that by (simp add: conditionPriority_eq_spec)
  have k': "set ks = {p. \<exists>c\<in>set conds. specEffectivePriority this c = Inr p}"
    using k eq by auto
  have "filter (\<lambda>c. conditionPriority this c = Inr q) conds
      = filter (\<lambda>c. specEffectivePriority this c = Inr q) conds" for q
    by (rule filter_cong) (simp_all add: eq)
  then have g': "groups = map (\<lambda>k. filter (\<lambda>c. specEffectivePriority this c = Inr k) conds) ks"
    using g by simp
  from s k' g' show ?thesis by blast
qed

text \<open>
  An instance: priorities 1 (from fact \<open>c\<close>), 10 (own), 3 (from fact \<open>a\<close>) and 3 (own) give
  the groups of 10, of 3 and of 1; as strings, \<open>10\<close> would come after \<open>3\<close>.
\<close>

theorem prioritizeConditions_groups_descending_witness:
  "prioritizeConditions (ruleOn factsABC)
     [leafEq ''c'' (VBool True), Leaf (Some 10) ''b'' VUndefined ''equal'' (VBool True),
      leafEq ''a'' (VBool True), Leaf (Some 3) ''zz'' VUndefined ''equal'' (VBool True)]
   = Inr [[Leaf (Some 10) ''b'' VUndefined ''equal'' (VBool True)],
      [leafEq ''a'' (VBool True), Leaf (Some 3) ''zz'' VUndefined ''equal'' (VBool True)],
      [leafEq ''c'' (VBool True)]]
   \<and> list_all (\<lambda>c. cpriority c \<noteq> Some 0)
     [leafEq ''c'' (VBool True), Leaf (Some 10) ''b'' VUndefined ''equal'' (VBool True),
      leafEq ''a'' (VBool True), Leaf (Some 3) ''zz'' VUndefined ''equal'' (VBool True)]
   \<and> (\<exists>ks. sorted_wrt (>) ks \<and>
     [[Leaf (Some 10) ''b'' VUndefined ''equal'' (VBool True)],
      [leafEq ''a'' (VBool True), Leaf (Some 3) ''zz'' VUndefined ''equal'' (VBool True)],
      [leafEq ''c'' (VBool True)]]
     = map (\<lambda>k. filter (\<lambda>c. specEffectivePriority (ruleOn factsABC) c = Inr k)
     [leafEq ''c'' (VBool True), Leaf (Some 10) ''b'' VUndefined ''equal'' (VBool True),
      leafEq ''a'' (VBool True), Leaf (Some 3) ''zz'' VUndefined ''equal'' (VBool True)]) ks)"
proof -
  have h: "prioritizeConditions (ruleOn factsABC)
     [leafEq ''c'' (VBool True), Leaf (Some 10) ''b'' VUndefined ''equal'' (VBool True),
      leafEq ''a'' (VBool True), Leaf (Some 3) ''zz'' VUndefined ''equal'' (VBool True)]
   = Inr [[Leaf (Some 10) ''b'' VUndefined ''equal'' (VBool True)],
      [leafEq ''a'' (VBool True), Leaf (Some 3) ''zz'' VUndefined ''equal'' (VBool True)],
      [leafEq ''c'' (VBool True)]]"
    by (simp add: example_defs)
  have z: "\<forall>c\<in>set
     [leafEq ''c'' (VBool True), Leaf (Some 10) ''b'' VUndefined ''equal'' (VBool True),
      leafEq ''a'' (VBool True), Leaf (Some 3) ''zz'' VUndefined ''equal'' (VBool True)]. cpriority c \<noteq> Some 0"
    by (simp add: leafEq_def)
  from prioritizeConditions_groups_descending [OF h z]
  obtain ks where k: "sorted_wrt (>) ks \<and>
     set ks = {p. \<exists>c\<in>set
     [leafEq ''c'' (VBool True), Leaf (Some 10) ''b'' VUndefined ''equal'' (VBool True),
      leafEq ''a'' (VBool True), Leaf (Some 3) ''zz'' VUndefined ''equal'' (VBool True)]. specEffectivePriority (ruleOn factsABC) c = Inr p} \<and>
     [[Leaf (Some 10) ''b'' VUndefined ''equal'' (VBool True)],
      [leafEq ''a'' (VBool True), Leaf (Some 3) ''zz'' VUndefined ''equal'' (VBool True)],
      [leafEq ''c'' (VBool True)]]
     = map (\<lambda>k. filter (\<lambda>c. specEffectivePriority (ruleOn factsABC) c = Inr k)
     [leafEq ''c'' (VBool True), Leaf (Some 10) ''b'' VUndefined ''equal'' (VBool True),
      leafEq ''a'' (VBool True), Leaf (Some 3) ''zz'' VUndefined ''equal'' (VBool True)]) ks" ..
  have s: "sorted_wrt (>) ks"
    using k by (rule conjunct1)
  have g: "[[Leaf (Some 10) ''b'' VUndefined ''equal'' (VBool True)],
      [leafEq ''a'' (VBool True), Leaf (Some 3) ''zz'' VUndefined ''equal'' (VBool True)],
      [leafEq ''c'' (VBool True)]]
     = map (\<lambda>k. filter (\<lambda>c. specEffectivePriority (ruleOn factsABC) c = Inr k)
     [leafEq ''c'' (VBool True), Leaf (Some 10) ''b'' VUndefined ''equal'' (VBool True),
      leafEq ''a'' (VBool True), Leaf (Some 3) ''zz'' VUndefined ''equal'' (VBool True)]) ks"
    using k by (rule conjunct2 [THEN conjunct2])
  have e: "\<exists>ks. sorted_wrt (>) ks \<and>
     [[Leaf (Some 10) ''b'' VUndefined ''equal'' (VBool True)],
      [leafEq ''a'' (VBool True), Leaf (Some 3) ''zz'' VUndefined ''equal'' (VBool True)],
      [leafEq ''c'' (VBool True)]]
     = map (\<lambda>k. filter (\<lambda>c. specEffectivePriority (ruleOn factsABC) c = Inr k)
     [leafEq ''c'' (VBool True), Leaf (Some 10) ''b'' VUndefined ''equal'' (VBool True),
      leafEq ''a'' (VBool True), Leaf (Some 3) ''zz'' VUndefined ''equal'' (VBool True)]) ks"
    using s g by (intro exI [of _ ks] conjI)
  have z': "list_all (\<lambda>c. cpriority c \<noteq> Some 0)
     [leafEq ''c'' (VBool True), Leaf (Some 10) ''b'' VUndefined ''equal'' (VBool True),
      leafEq ''a'' (VBool True), Leaf (Some 3) ''zz'' VUndefined ''equal'' (VBool True)]"
    by (simp add: leafEq_def)
  from h z' e show ?thesis by (intro conjI)
qed

text \<open>
  Claim C6 is not met by the code on a condition whose own priority is \<open>0\<close>. The comment of
  lines 109 and 110 says that a priority set on the condition is honoured first, but the
  test of line 112, \<^verbatim>\<open>!priority\<close>, takes \<open>0\<close> for an absent priority. With fact \<open>a\<close>
  registered at priority 5, the condition on \<open>a\<close> with own priority 0 is put in the group
  of 5 and returned ahead of the condition with own priority 3, whereas the effective
  priorities of the claim are 0 and 3 and the second condition comes first.
\<close>

theorem own_priority_zero_not_honoured:
  "prioritizeConditions (ruleOn [(''a'', 5, VBool True)])
     [Leaf (Some 0) ''a'' VUndefined ''equal'' (VBool True),
      Leaf (Some 3) ''b'' VUndefined ''equal'' (VBool True)]
     = Inr [[Leaf (Some 0) ''a'' VUndefined ''equal'' (VBool True)],
            [Leaf (Some 3) ''b'' VUndefined ''equal'' (VBool True)]]
   \<and> conditionPriority (ruleOn [(''a'', 5, VBool True)])
       (Leaf (Some 0) ''a'' VUndefined ''equal'' (VBool True)) = Inr 5
   \<and> specEffectivePriority (ruleOn [(''a'', 5, VBool True)])
       (Leaf (Some 0) ''a'' VUndefined ''equal'' (VBool True)) = Inr 0
   \<and> specEffectivePriority (ruleOn [(''a'', 5, VBool True)])
       (Leaf (Some 3) ''b'' VUndefined ''equal'' (VBool True)) = Inr 3"
  by (simp add: example_defs specEffectivePriority_def)

lemma reduceSets_undefined:
  assumes "engine this = Some eng"
  shows "c \<in> set conds \<Longrightarrow> truthyPriority c = None \<Longrightarrow> getFact eng (cfact c) = None \<Longrightarrow>
    \<exists>c'\<in>set conds. getFact eng (cfact c') = None \<and>
       reduceSets this sets conds = Inl (UndefinedFact (cfact c'))"
proof (induction conds arbitrary: sets)
  case Nil
  then show ?case by simp
next
  case (Cons a conds)
  show ?case
  proof (cases "conditionPriority this a")
    case (Inl e)
    with assms have "getFact eng (cfact a) = None \<and> e = UndefinedFact (cfact a)"
      by (auto simp: conditionPriority_def split: option.splits)
    with Inl show ?thesis by simp
  next
    case (Inr p)
    with Cons.prems assms have "c \<in> set conds"
      by (auto simp: conditionPriority_def)
    from Cons.IH [OF this Cons.prems(2,3)] Inr show ?thesis by simp
  qed
qed

text \<open>
  Claim C5. When a condition of the array has no priority of its own and its fact is not
  registered with the attached fact provider, \<open>prioritizeConditions\<close> throws an
  undefined-fact error, for a condition of the array whose fact is not registered, and
  \<open>prioritizeAndRun\<close> rejects with that error having initiated no fact lookup at all,
  whatever the evaluation of a single condition would do.
\<close>

theorem undefined_fact_fails_before_lookups:
  assumes "engine this = Some eng" and "c \<in> set conds" and "cpriority c = None"
    and "getFact eng (cfact c) = None"
  shows "\<exists>c'\<in>set conds. getFact eng (cfact c') = None \<and>
           prioritizeConditions this conds = Inl (UndefinedFact (cfact c')) \<and>
           prioritizeAndRun ev this conds operator = (Inl (UndefinedFact (cfact c')), [])"
proof -
  have "truthyPriority c = None"
    using assms(3) by (simp add: truthyPriority_def)
  from reduceSets_undefined [OF assms(1,2) this assms(4), of "[]"]
  show ?thesis by (auto simp: prioritizeConditions_def prioritizeAndRun_def)
qed

theorem undefined_fact_fails_before_lookups_witness:
  "engine (ruleOn factsABC) = Some (tableEngine factsABC)
   \<and> leafEq ''zz'' (VBool True)
       \<in> set [leafEq ''a'' (VBool True), leafEq ''zz'' (VBool True), leafEq ''b'' (VBool True)]
   \<and> cpriority (leafEq ''zz'' (VBool True)) = None
   \<and> getFact (tableEngine factsABC) (cfact (leafEq ''zz'' (VBool True))) = None
   \<and> (\<exists>c'\<in>set [leafEq ''a'' (VBool True), leafEq ''zz'' (VBool True), leafEq ''b'' (VBool True)].
         all booleanEvaluate (ruleOn factsABC)
           [leafEq ''a'' (VBool True), leafEq ''zz'' (VBool True), leafEq ''b'' (VBool True)]
         = (Inl (UndefinedFact (cfact c')), []))"
proof -
  have h1: "engine (ruleOn factsABC) = Some (tableEngine factsABC)"
    by (simp add: ruleOn_def setEngine_def)
  have h2: "leafEq ''zz'' (VBool True)
       \<in> set [leafEq ''a'' (VBool True), leafEq ''zz'' (VBool True), leafEq ''b'' (VBool True)]"
    by simp
  have h3: "cpriority (leafEq ''zz'' (VBool True)) = None"
    by (simp add: leafEq_def)
  have h4: "getFact (tableEngine factsABC) (cfact (leafEq ''zz'' (VBool True))) = None"
    by (simp add: leafEq_def tableEngine_def factsABC_def)
  from undefined_fact_fails_before_lookups [OF h1 h2 h3 h4,
      of "evaluateCondition booleanEvaluate (ruleOn factsABC)" OpAll]
  have "\<exists>c'\<in>set [leafEq ''a'' (VBool True), leafEq ''zz'' (VBool True), leafEq ''b'' (VBool True)].
         all booleanEvaluate (ruleOn factsABC)
           [leafEq ''a'' (VBool True), leafEq ''zz'' (VBool True), leafEq ''b'' (VBool True)]
         = (Inl (UndefinedFact (cfact c')), [])"
    unfolding all_def by blast
  with h1 h2 h3 h4 show ?thesis by blast
qed

text \<open>
  Claim C8. For the empty array \<open>prioritizeConditions\<close> returns no group, and
  \<open>prioritizeAndRun\<close>, under either operator and so \<open>any\<close> and \<open>all\<close>, resolves with the
  value of the initial \<^verbatim>\<open>Promise.resolve()\<close>, which is \<^verbatim>\<open>undefined\<close>, without a fact
  lookup.
\<close>

theorem empty_conditions_resolve_initial_value:
  "prioritizeConditions this [] = Inr [] \<and>
   prioritizeAndRun ev this [] operator = (Inr VUndefined, []) \<and>
   any ce this [] = (Inr VUndefined, []) \<and>
   all ce this [] = (Inr VUndefined, [])"
  by (simp add: prioritizeConditions_def prioritizeAndRun_def any_def all_def)

section \<open>Properties of the evaluation of one group\<close>

lemma promiseAll_Inr: "promiseAll (map Inr vs) = Inr vs"
  by (induction vs) simp_all

lemma snd_evaluateConditions:
  "snd (evaluateConditions ev conds m) = concat (map (\<lambda>c. snd (ev c)) conds)"
  by (simp add: evaluateConditions_def Let_def comp_def split: sum.splits)

text \<open>
  Claim C10. When the conditions of a group resolve with the values \<open>results\<close>, the group's
  result under \<^verbatim>\<open>every\<close> is true exactly when each value is the boolean \<^verbatim>\<open>true\<close>, and
  under \<^verbatim>\<open>some\<close> exactly when one of them is; any other value, a truthy one included,
  does not count.
\<close>

theorem group_result_strict_true:
  assumes "map (\<lambda>c. fst (ev c)) conds = map Inr results"
  shows "fst (evaluateConditions ev conds ArrayEvery) = Inr (\<forall>r\<in>set results. r = VBool True) \<and>
         fst (evaluateConditions ev conds ArraySome) = Inr (\<exists>r\<in>set results. r = VBool True)"
proof -
  have "promiseAll (map fst (map ev conds)) = Inr results"
    using assms promiseAll_Inr [of results] by (simp add: comp_def)
  then show ?thesis
    by (simp add: evaluateConditions_def Let_def list_all_iff list_ex_iff)
qed

text \<open>
  An instance: with an evaluator that returns the resolved value, the facts \<open>a\<close> and
  \<open>b\<close> give \<^verbatim>\<open>true\<close> and the truthy number 1; \<^verbatim>\<open>every\<close> is false and \<^verbatim>\<open>some\<close> is true.
\<close>

theorem group_result_strict_true_witness:
  "map (\<lambda>c. fst (evaluateCondition valueEvaluate (ruleOn [(''a'', 1, VBool True), (''b'', 1, VNum 1)]) c))
     [leafEq ''a'' (VBool True), leafEq ''b'' (VBool True)]
     = map Inr [VBool True, VNum 1]
   \<and> truthy (VNum 1)
   \<and> fst (evaluateConditions
            (evaluateCondition valueEvaluate (ruleOn [(''a'', 1, VBool True), (''b'', 1, VNum 1)]))
            [leafEq ''a'' (VBool True), leafEq ''b'' (VBool True)] ArrayEvery) = Inr False
   \<and> fst (evaluateConditions
            (evaluateCondition valueEvaluate (ruleOn [(''a'', 1, VBool True), (''b'', 1, VNum 1)]))
            [leafEq ''a'' (VBool True), leafEq ''b'' (VBool True)] ArraySome) = Inr True"
proof -
  have h: "map (\<lambda>c. fst (evaluateCondition valueEvaluate (ruleOn [(''a'', 1, VBool True), (''b'', 1, VNum 1)]) c))
     [leafEq ''a'' (VBool True), leafEq ''b'' (VBool True)]
     = map Inr [VBool True, VNum 1]"
    by (simp add: ruleOn_def tableEngine_def valueEvaluate_def setEngine_def leafEq_def)
  from group_result_strict_true [OF h] h show ?thesis by simp
qed

section \<open>Properties of the chain of groups\<close>

lemma thenChain_skip:
  "(operator = OpAny \<and> acc = VBool True) \<or> (operator = OpAll \<and> acc = VBool False) \<Longrightarrow>
     thenChain ev operator m acc (s # sets) = thenChain ev operator m acc sets"
  by auto

lemma thenChain_run:
  "\<not> (operator = OpAny \<and> acc = VBool True) \<Longrightarrow> \<not> (operator = OpAll \<and> acc = VBool False) \<Longrightarrow>
     thenChain ev operator m acc (s # sets) =
       (case evaluateConditions ev s m of
          (Inl e, l) \<Rightarrow> (Inl e, l)
        | (Inr b, l) \<Rightarrow> (case thenChain ev operator m (VBool b) sets of (r, l') \<Rightarrow> (r, l @ l')))"
  by auto

lemma thenChain_append:
  "thenChain ev operator m acc (xs @ ys) =
     (case thenChain ev operator m acc xs of
        (Inl e, l) \<Rightarrow> (Inl e, l)
      | (Inr v, l) \<Rightarrow> (case thenChain ev operator m v ys of (r, l') \<Rightarrow> (r, l @ l')))"
proof (induction xs arbitrary: acc)
  case Nil
  then show ?case by (simp split: prod.splits)
next
  case (Cons s xs)
  show ?case
  proof (cases "(operator = OpAny \<and> acc = VBool True) \<or> (operator = OpAll \<and> acc = VBool False)")
    case True
    then show ?thesis
      using Cons.IH [of acc] by (simp only: append_Cons thenChain_skip)
  next
    case False
    then have n: "\<not> (operator = OpAny \<and> acc = VBool True)" "\<not> (operator = OpAll \<and> acc = VBool False)"
      by simp_all
    obtain x l where e: "evaluateConditions ev s m = (x, l)"
      by (cases "evaluateConditions ev s m")
    show ?thesis
    proof (cases x)
      case (Inl err)
      with e show ?thesis
        by (simp only: append_Cons thenChain_run [OF n]) simp
    next
      case (Inr b)
      obtain y k where t: "thenChain ev operator m (VBool b) xs = (y, k)"
        by (cases "thenChain ev operator m (VBool b) xs")
      show ?thesis
        using e Inr t Cons.IH [of "VBool b"]
        by (simp only: append_Cons thenChain_run [OF n]) (cases y; simp split: prod.splits)
    qed
  qed
qed

lemma thenChain_any_true:
  "thenChain ev OpAny m (VBool True) sets = (Inr (VBool True), [])"
  by (induction sets) simp_all

lemma thenChain_all_false:
  "thenChain ev OpAll m (VBool False) sets = (Inr (VBool False), [])"
  by (induction sets) simp_all

lemma thenChain_reached:
  assumes "\<not> (operator = OpAny \<and> r = VBool True)" and "\<not> (operator = OpAll \<and> r = VBool False)"
    and "c \<in> set g"
  shows "set (snd (ev c)) \<subseteq> set (snd (thenChain ev operator m r (g # remaining)))"
proof -
  have "set (snd (ev c)) \<subseteq> set (snd (evaluateConditions ev g m))"
    using assms(3) by (auto simp: snd_evaluateConditions)
  then show ?thesis
    by (simp only: thenChain_run [OF assms(1,2)]) (auto split: prod.splits sum.splits)
qed

text \<open>
  Claim C1. Let the ordered groups be \<open>before @ g # remaining\<close>, let the chain over the
  groups \<open>before\<close> have resolved with \<open>r\<close> after the lookups \<open>lookups1\<close>, \<open>r\<close> not being a
  value that stops the chain, so that group \<open>g\<close> is evaluated, and let \<open>g\<close> resolve with
  \<open>b\<close> after the lookups \<open>lookups2\<close>. If \<open>b\<close> is true under \<^verbatim>\<open>any\<close>, or false under \<^verbatim>\<open>all\<close>,
  then \<open>prioritizeAndRun\<close> resolves with \<open>b\<close>, and the lookups it initiates are those of the
  groups up to \<open>g\<close>: none of a remaining group.
\<close>

theorem short_circuit_skips_remaining_groups:
  assumes "prioritizeConditions this conds = Inr (before @ g # remaining)"
    and "thenChain ev operator (methodFor operator) VUndefined before = (Inr r, lookups1)"
    and "\<not> (operator = OpAny \<and> r = VBool True)" and "\<not> (operator = OpAll \<and> r = VBool False)"
    and "evaluateConditions ev g (methodFor operator) = (Inr b, lookups2)"
    and "(operator = OpAny \<and> b) \<or> (operator = OpAll \<and> \<not> b)"
  shows "prioritizeAndRun ev this conds operator = (Inr (VBool b), lookups1 @ lookups2)"
proof -
  have "thenChain ev operator (methodFor operator) r (g # remaining) = (Inr (VBool b), lookups2)"
    using assms(5,6)
    by (simp only: thenChain_run [OF assms(3,4)])
       (auto simp: thenChain_any_true thenChain_all_false)
  then show ?thesis
    using assms(1,2) by (simp add: prioritizeAndRun_def thenChain_append)
qed

text \<open>
  Two instances on the facts \<open>a\<close>, \<open>b\<close>, \<open>c\<close> of priorities 3, 2, 1, all resolving with
  \<^verbatim>\<open>true\<close>. Under \<^verbatim>\<open>any\<close> the group of \<open>a\<close> is false and the group of \<open>b\<close> true; under
  \<^verbatim>\<open>all\<close> the group of \<open>a\<close> is true and the group of \<open>b\<close> false. In both the fact \<open>c\<close> is
  never looked up.
\<close>

theorem short_circuit_skips_remaining_groups_witness:
  "prioritizeConditions (ruleOn factsABC)
       [leafEq ''c'' (VBool True), leafEq ''b'' (VBool True), leafEq ''a'' (VBool False)]
     = Inr ([[leafEq ''a'' (VBool False)]] @ [leafEq ''b'' (VBool True)] # [[leafEq ''c'' (VBool True)]])
   \<and> thenChain (evaluateCondition booleanEvaluate (ruleOn factsABC)) OpAny (methodFor OpAny)
        VUndefined [[leafEq ''a'' (VBool False)]] = (Inr (VBool False), [(''a'', VUndefined)])
   \<and> evaluateConditions (evaluateCondition booleanEvaluate (ruleOn factsABC))
        [leafEq ''b'' (VBool True)] (methodFor OpAny) = (Inr True, [(''b'', VUndefined)])
   \<and> any booleanEvaluate (ruleOn factsABC)
        [leafEq ''c'' (VBool True), leafEq ''b'' (VBool True), leafEq ''a'' (VBool False)]
      = (Inr (VBool True), [(''a'', VUndefined), (''b'', VUndefined)])
   \<and> prioritizeConditions (ruleOn factsABC)
       [leafEq ''c'' (VBool True), leafEq ''b'' (VBool False), leafEq ''a'' (VBool True)]
     = Inr ([[leafEq ''a'' (VBool True)]] @ [leafEq ''b'' (VBool False)] # [[leafEq ''c'' (VBool True)]])
   \<and> thenChain (evaluateCondition booleanEvaluate (ruleOn factsABC)) OpAll (methodFor OpAll)
        VUndefined [[leafEq ''a'' (VBool True)]] = (Inr (VBool True), [(''a'', VUndefined)])
   \<and> evaluateConditions (evaluateCondition booleanEvaluate (ruleOn factsABC))
        [leafEq ''b'' (VBool False)] (methodFor OpAll) = (Inr False, [(''b'', VUndefined)])
   \<and> all booleanEvaluate (ruleOn factsABC)
        [leafEq ''c'' (VBool True), leafEq ''b'' (VBool False), leafEq ''a'' (VBool True)]
      = (Inr (VBool False), [(''a'', VUndefined), (''b'', VUndefined)])"
proof -
  let ?ev = "evaluateCondition booleanEvaluate (ruleOn factsABC)"
  have a1: "prioritizeConditions (ruleOn factsABC)
       [leafEq ''c'' (VBool True), leafEq ''b'' (VBool True), leafEq ''a'' (VBool False)]
     = Inr ([[leafEq ''a'' (VBool False)]] @ [leafEq ''b'' (VBool True)] # [[leafEq ''c'' (VBool True)]])"
    by (simp add: example_defs)
  have a2: "thenChain ?ev OpAny (methodFor OpAny) VUndefined [[leafEq ''a'' (VBool False)]]
      = (Inr (VBool False), [(''a'', VUndefined)])"
    by (simp add: example_defs)
  have a3: "evaluateConditions ?ev [leafEq ''b'' (VBool True)] (methodFor OpAny)
      = (Inr True, [(''b'', VUndefined)])"
    by (simp add: example_defs)
  have b1: "prioritizeConditions (ruleOn factsABC)
       [leafEq ''c'' (VBool True), leafEq ''b'' (VBool False), leafEq ''a'' (VBool True)]
     = Inr ([[leafEq ''a'' (VBool True)]] @ [leafEq ''b'' (VBool False)] # [[leafEq ''c'' (VBool True)]])"
    by (simp add: example_defs)
  have b2: "thenChain ?ev OpAll (methodFor OpAll) VUndefined [[leafEq ''a'' (VBool True)]]
      = (Inr (VBool True), [(''a'', VUndefined)])"
    by (simp add: example_defs)
  have b3: "evaluateConditions ?ev [leafEq ''b'' (VBool False)] (methodFor OpAll)
      = (Inr False, [(''b'', VUndefined)])"
    by (simp add: example_defs)
  have a4: "any booleanEvaluate (ruleOn factsABC)
        [leafEq ''c'' (VBool True), leafEq ''b'' (VBool True), leafEq ''a'' (VBool False)]
      = (Inr (VBool True), [(''a'', VUndefined), (''b'', VUndefined)])"
    using short_circuit_skips_remaining_groups [OF a1 a2 _ _ a3] by (simp add: any_def)
  have b4: "all booleanEvaluate (ruleOn factsABC)
        [leafEq ''c'' (VBool True), leafEq ''b'' (VBool False), leafEq ''a'' (VBool True)]
      = (Inr (VBool False), [(''a'', VUndefined), (''b'', VUndefined)])"
    using short_circuit_skips_remaining_groups [OF b1 b2 _ _ b3] by (simp add: all_def)
  from a1 a2 a3 a4 b1 b2 b3 b4 show ?thesis by (intro conjI)
qed

text \<open>
  Claim C2. Let group \<open>g\<close> be reached: the chain over the groups before it has resolved
  with a value that does not stop the chain. Then for every condition of \<open>g\<close>, whatever
  its siblings do, the lookups that its evaluation initiates are among the lookups of
  \<open>prioritizeAndRun\<close>; for a leaf, with a fact provider attached, that is the lookup of
  its fact with its parameters.
\<close>

theorem reached_group_runs_every_condition:
  assumes "prioritizeConditions this conds = Inr (before @ g # remaining)"
    and "thenChain (evaluateCondition ce this) operator (methodFor operator) VUndefined before
           = (Inr r, lookups1)"
    and "\<not> (operator = OpAny \<and> r = VBool True)" and "\<not> (operator = OpAll \<and> r = VBool False)"
    and "c \<in> set g"
  shows "set (snd (evaluateCondition ce this c))
           \<subseteq> set (snd (prioritizeAndRun (evaluateCondition ce this) this conds operator))
         \<and> (engine this \<noteq> None \<longrightarrow>
              (case c of
                 Leaf p f ps opr v \<Rightarrow>
                   (f, ps) \<in> set (snd (prioritizeAndRun (evaluateCondition ce this) this conds operator))
               | Node p operator' subConditions \<Rightarrow> True))"
proof -
  let ?ev = "evaluateCondition ce this"
  have "set (snd (?ev c)) \<subseteq> set (snd (thenChain ?ev operator (methodFor operator) r (g # remaining)))"
    using assms(3-5) by (rule thenChain_reached)
  then have sub: "set (snd (?ev c)) \<subseteq> set (snd (prioritizeAndRun ?ev this conds operator))"
    using assms(1,2)
    by (auto simp del: thenChain.simps simp: prioritizeAndRun_def thenChain_append Let_def
        split: prod.splits)
  have "(f, ps) \<in> set (snd (prioritizeAndRun ?ev this conds operator))"
    if "engine this \<noteq> None" "c = Leaf p f ps opr v" for p f ps opr v
  proof -
    have "(f, ps) \<in> set (snd (?ev c))"
      using that by (auto split: sum.splits)
    with sub show ?thesis by blast
  qed
  with sub show ?thesis by (cases c) simp_all
qed

text \<open>
  An instance under \<^verbatim>\<open>all\<close>: the conditions on \<open>a\<close> and on \<open>b\<close> share priority 3; the
  first one fails, and the fact \<open>b\<close> of its sibling is looked up all the same, while \<open>c\<close>,
  in the next group, is not.
\<close>

theorem reached_group_runs_every_condition_witness:
  "prioritizeConditions (ruleOn factsABC)
       [leafEq ''a'' (VBool False), leafEq ''c'' (VBool True),
        Leaf (Some 3) ''b'' VUndefined ''equal'' (VBool True)]
     = Inr ([] @ [leafEq ''a'' (VBool False), Leaf (Some 3) ''b'' VUndefined ''equal'' (VBool True)]
              # [[leafEq ''c'' (VBool True)]])
   \<and> fst (evaluateCondition booleanEvaluate (ruleOn factsABC) (leafEq ''a'' (VBool False)))
       = Inr (VBool False)
   \<and> (''b'', VUndefined) \<in> set (snd (all booleanEvaluate (ruleOn factsABC)
       [leafEq ''a'' (VBool False), leafEq ''c'' (VBool True),
        Leaf (Some 3) ''b'' VUndefined ''equal'' (VBool True)]))
   \<and> (''c'', VUndefined) \<notin> set (snd (all booleanEvaluate (ruleOn factsABC)
       [leafEq ''a'' (VBool False), leafEq ''c'' (VBool True),
        Leaf (Some 3) ''b'' VUndefined ''equal'' (VBool True)]))"
proof -
  let ?ev = "evaluateCondition booleanEvaluate (ruleOn factsABC)"
  have h1: "prioritizeConditions (ruleOn factsABC)
       [leafEq ''a'' (VBool False), leafEq ''c'' (VBool True),
        Leaf (Some 3) ''b'' VUndefined ''equal'' (VBool True)]
     = Inr ([] @ [leafEq ''a'' (VBool False), Leaf (Some 3) ''b'' VUndefined ''equal'' (VBool True)]
              # [[leafEq ''c'' (VBool True)]])"
    by (simp add: example_defs)
  have h2: "thenChain ?ev OpAll (methodFor OpAll) VUndefined [] = (Inr VUndefined, [])"
    by simp
  have h5: "Leaf (Some 3) ''b'' VUndefined ''equal'' (VBool True)
      \<in> set [leafEq ''a'' (VBool False), Leaf (Some 3) ''b'' VUndefined ''equal'' (VBool True)]"
    by simp
  have e: "engine (ruleOn factsABC) \<noteq> None"
    by (simp add: ruleOn_def setEngine_def)
  have "(''b'', VUndefined) \<in> set (snd (all booleanEvaluate (ruleOn factsABC)
       [leafEq ''a'' (VBool False), leafEq ''c'' (VBool True),
        Leaf (Some 3) ''b'' VUndefined ''equal'' (VBool True)]))"
    using reached_group_runs_every_condition [OF h1 h2 _ _ h5] e by (simp add: all_def)
  moreover have "fst (?ev (leafEq ''a'' (VBool False))) = Inr (VBool False)"
    by (simp add: example_defs)
  moreover have "(''c'', VUndefined) \<notin> set (snd (all booleanEvaluate (ruleOn factsABC)
       [leafEq ''a'' (VBool False), leafEq ''c'' (VBool True),
        Leaf (Some 3) ''b'' VUndefined ''equal'' (VBool True)]))"
    by (simp add: example_defs)
  ultimately show ?thesis using h1 by (intro conjI)
qed

section \<open>Properties of the evaluation of a tree\<close>

text \<open>
  Claim C3, as amended. For a boolean node, \<open>evaluateCondition\<close> runs \<open>any\<close> or \<open>all\<close>,
  after the node's operator, on the array of the node; a rejection is passed on, and a
  value is handed as the comparison value to the node's own \<^verbatim>\<open>evaluate\<close> (line 92),
  whose result is the result of the node, after the same lookups.
\<close>

theorem boolean_node_result_passes_through_evaluate:
  assumes "(case operator of
              OpAny \<Rightarrow> any ce this subConditions
            | OpAll \<Rightarrow> all ce this subConditions) = (nested, lookups)"
  shows "evaluateCondition ce this (Node p operator subConditions) =
           (case nested of
              Inl e \<Rightarrow> (Inl e, lookups)
            | Inr comparisonValue \<Rightarrow> (ce (Node p operator subConditions) comparisonValue, lookups))"
  using assms by (cases operator; cases nested) (simp_all add: any_def all_def)

theorem boolean_node_result_passes_through_evaluate_witness:
  "(case OpAny of
      OpAny \<Rightarrow> any booleanEvaluate (ruleOn factsABC) [leafEq ''a'' (VBool True)]
    | OpAll \<Rightarrow> all booleanEvaluate (ruleOn factsABC) [leafEq ''a'' (VBool True)])
     = (Inr (VBool True), [(''a'', VUndefined)])
   \<and> evaluateCondition booleanEvaluate (ruleOn factsABC)
       (Node (Some 1) OpAny [leafEq ''a'' (VBool True)])
     = (booleanEvaluate (Node (Some 1) OpAny [leafEq ''a'' (VBool True)]) (VBool True),
        [(''a'', VUndefined)])"
proof -
  have h: "(case OpAny of
      OpAny \<Rightarrow> any booleanEvaluate (ruleOn factsABC) [leafEq ''a'' (VBool True)]
    | OpAll \<Rightarrow> all booleanEvaluate (ruleOn factsABC) [leafEq ''a'' (VBool True)])
     = (Inr (VBool True), [(''a'', VUndefined)])"
    by (simp add: example_defs)
  from boolean_node_result_passes_through_evaluate [OF h, of "Some 1"] h
  show ?thesis by simp
qed

text \<open>
  Claim C3 as stated says that the nested result is the result of the node and that the
  condition's evaluator is not applied to it. With the evaluator that compares against the
  stored value, a node over one true condition has the nested result \<^verbatim>\<open>true\<close> and the
  result \<^verbatim>\<open>false\<close>. With the evaluator that tests a node's value for \<^verbatim>\<open>=== true\<close>, a node
  over the empty array has the nested result \<^verbatim>\<open>undefined\<close> and the result \<^verbatim>\<open>false\<close>.
\<close>

theorem boolean_node_result_not_direct_counterexample:
  "any equalEvaluate (ruleOn factsABC) [leafEq ''a'' (VBool True)]
     = (Inr (VBool True), [(''a'', VUndefined)])
   \<and> evaluateCondition equalEvaluate (ruleOn factsABC)
       (Node (Some 1) OpAny [leafEq ''a'' (VBool True)])
     = (Inr (VBool False), [(''a'', VUndefined)])
   \<and> all booleanEvaluate (ruleOn factsABC) [] = (Inr VUndefined, [])
   \<and> evaluateCondition booleanEvaluate (ruleOn factsABC) (Node (Some 1) OpAll [])
     = (Inr (VBool False), [])"
  by (simp add: example_defs)







lemma unchangedOn_priority:
  "unchangedOn e1 e2 c \<Longrightarrow>
     conditionPriority (this\<lparr>engine := Some e1\<rparr>) c = conditionPriority (this\<lparr>engine := Some e2\<rparr>) c"
  by (cases c) (auto simp: conditionPriority_def split: option.splits)

lemma reduceSets_cong:
  "(\<And>c. c \<in> set cs \<Longrightarrow> conditionPriority t1 c = conditionPriority t2 c) \<Longrightarrow>
     reduceSets t1 sets cs = reduceSets t2 sets cs"
  by (induction cs arbitrary: sets) (simp_all split: sum.splits)

lemma unchangedOn_run:
  assumes "\<And>c. c \<in> set cs \<Longrightarrow> unchangedOn e1 e2 c"
    and "\<And>c. c \<in> set cs \<Longrightarrow>
      evaluateCondition ce (this\<lparr>engine := Some e1\<rparr>) c
        = evaluateCondition ce (this\<lparr>engine := Some e2\<rparr>) c"
  shows "prioritizeAndRun (evaluateCondition ce (this\<lparr>engine := Some e1\<rparr>))
           (this\<lparr>engine := Some e1\<rparr>) cs operator
       = prioritizeAndRun (evaluateCondition ce (this\<lparr>engine := Some e2\<rparr>))
           (this\<lparr>engine := Some e2\<rparr>) cs operator"
proof -
  let ?t1 = "this\<lparr>engine := Some e1\<rparr>" and ?t2 = "this\<lparr>engine := Some e2\<rparr>"
  have "reduceSets ?t1 [] cs = reduceSets ?t2 [] cs"
    by (rule reduceSets_cong) (simp add: assms(1) unchangedOn_priority)
  then have g: "prioritizeConditions ?t1 cs = prioritizeConditions ?t2 cs"
    by (simp add: prioritizeConditions_def)
  have "prioritizeAndRun (evaluateCondition ce ?t1) ?t1 cs operator
      = prioritizeAndRun (evaluateCondition ce ?t2) ?t1 cs operator"
    by (rule prioritizeAndRun_cong) (simp_all add: assms(2))
  also have "\<dots> = prioritizeAndRun (evaluateCondition ce ?t2) ?t2 cs operator"
    by (simp add: prioritizeAndRun_def g)
  finally show ?thesis .
qed

lemma unchangedOn_evaluateCondition:
  "unchangedOn e1 e2 c \<Longrightarrow>
     evaluateCondition ce (this\<lparr>engine := Some e1\<rparr>) c
       = evaluateCondition ce (this\<lparr>engine := Some e2\<rparr>) c"
proof (induction c)
  case (Leaf p f ps opr v)
  then show ?case by simp
next
  case (Node p operator cs)
  have u: "unchangedOn e1 e2 c" if "c \<in> set cs" for c
    using Node.prems that by (simp add: list_all_iff)
  have "prioritizeAndRun (evaluateCondition ce (this\<lparr>engine := Some e1\<rparr>))
           (this\<lparr>engine := Some e1\<rparr>) cs operator
       = prioritizeAndRun (evaluateCondition ce (this\<lparr>engine := Some e2\<rparr>))
           (this\<lparr>engine := Some e2\<rparr>) cs operator"
    by (rule unchangedOn_run) (simp_all add: u Node.IH)
  then show ?case by simp
qed

text \<open>
  Claim C9. Evaluation leaves the rule as it is, so two evaluations of a rule differ only
  by the state of the fact provider at each of them, \<open>e1\<close> and \<open>e2\<close>. When the two states
  register the same facts and resolve the same values for the facts that the rule's
  conditions refer to, both evaluations settle in the same way: the same boolean, or the
  same failure, after the same lookups.
\<close>

theorem evaluate_twice_same_result:
  assumes "conditions this = Some root" and "unchangedOn e1 e2 root"
  shows "evaluate ce (this\<lparr>engine := Some e1\<rparr>) = evaluate ce (this\<lparr>engine := Some e2\<rparr>)"
proof (cases root)
  case (Leaf p f ps opr v)
  with assms(1) show ?thesis by (simp add: evaluate_def)
next
  case (Node p operator cs)
  have u: "unchangedOn e1 e2 c" if "c \<in> set cs" for c
    using assms(2) Node that by (simp add: list_all_iff)
  have "prioritizeAndRun (evaluateCondition ce (this\<lparr>engine := Some e1\<rparr>))
           (this\<lparr>engine := Some e1\<rparr>) cs operator
       = prioritizeAndRun (evaluateCondition ce (this\<lparr>engine := Some e2\<rparr>))
           (this\<lparr>engine := Some e2\<rparr>) cs operator"
    by (rule unchangedOn_run) (simp_all add: u unchangedOn_evaluateCondition)
  then show ?thesis
    using assms(1) Node by (cases operator) (simp_all add: evaluate_def any_def all_def)
qed

text \<open>
  An instance: between the two evaluations a fact \<open>d\<close>, which the rule does not use, is
  registered; the rule evaluates to \<^verbatim>\<open>true\<close> both times.
\<close>

theorem evaluate_twice_same_result_witness:
  "unchangedOn (tableEngine factsABC) (tableEngine (factsABC @ [(''d'', 7, VNum 1)]))
     (Node None OpAll [leafEq ''a'' (VBool True),
        Node (Some 1) OpAny [leafEq ''b'' (VBool False), leafEq ''c'' (VBool True)]])
   \<and> getFact (tableEngine factsABC) (Some ''d'')
       \<noteq> getFact (tableEngine (factsABC @ [(''d'', 7, VNum 1)])) (Some ''d'')
   \<and> evaluate booleanEvaluate
       (emptyRule\<lparr>conditions := Some (Node None OpAll [leafEq ''a'' (VBool True),
            Node (Some 1) OpAny [leafEq ''b'' (VBool False), leafEq ''c'' (VBool True)]]),
          engine := Some (tableEngine factsABC)\<rparr>)
     = evaluate booleanEvaluate
       (emptyRule\<lparr>conditions := Some (Node None OpAll [leafEq ''a'' (VBool True),
            Node (Some 1) OpAny [leafEq ''b'' (VBool False), leafEq ''c'' (VBool True)]]),
          engine := Some (tableEngine (factsABC @ [(''d'', 7, VNum 1)]))\<rparr>)
   \<and> fst (evaluate booleanEvaluate
       (emptyRule\<lparr>conditions := Some (Node None OpAll [leafEq ''a'' (VBool True),
            Node (Some 1) OpAny [leafEq ''b'' (VBool False), leafEq ''c'' (VBool True)]]),
          engine := Some (tableEngine factsABC)\<rparr>)) = Inr (VBool True)"
proof -
  let ?root = "Node None OpAll [leafEq ''a'' (VBool True),
        Node (Some 1) OpAny [leafEq ''b'' (VBool False), leafEq ''c'' (VBool True)]]"
  let ?rl = "emptyRule\<lparr>conditions := Some ?root\<rparr>"
  have h1: "conditions ?rl = Some ?root"
    by simp
  have h2: "unchangedOn (tableEngine factsABC) (tableEngine (factsABC @ [(''d'', 7, VNum 1)])) ?root"
    by (simp add: tableEngine_def factsABC_def leafEq_def)
  have d: "getFact (tableEngine factsABC) (Some ''d'')
       \<noteq> getFact (tableEngine (factsABC @ [(''d'', 7, VNum 1)])) (Some ''d'')"
    by (simp add: tableEngine_def factsABC_def)
  have v: "fst (evaluate booleanEvaluate (?rl\<lparr>engine := Some (tableEngine factsABC)\<rparr>))
      = Inr (VBool True)"
    by (simp add: example_defs)
  from evaluate_twice_same_result [OF h1 h2, of booleanEvaluate] h2 d v
  show ?thesis by simp
qed

section \<open>The priority of a rule\<close>

lemma setPriority_rejects:
  "parseInt p = VNum n \<Longrightarrow> n \<le> 0 \<Longrightarrow> setPriority this p = Inl PriorityError"
  by (simp add: setPriority_def)

lemma setPriority_accepts:
  "1 \<le> n \<Longrightarrow> setPriority this (VNum n) = Inr (this\<lparr>priority := VNum n\<rparr>)"
  by (simp add: setPriority_def)

lemma constructor_rejects:
  "truthy p \<Longrightarrow> parseInt p = VNum n \<Longrightarrow> n \<le> 0 \<Longrightarrow>
     \<exists>e. constructor (Some \<lparr>opt_conditions = oc, opt_priority = p, opt_event = oe\<rparr>) = Inl e"
  by (auto simp: constructor_def setPriority_def setConditions_def split: option.splits sum.splits)

text \<open>
  \<open>setPriority\<close> on its own: an argument that \<^verbatim>\<open>parseInt\<close> reads as an integer not above
  zero is refused and the rule is left as it was (no new rule is returned); an integer
  from 1 up to \<open>2 ^ 53 - 1\<close>, the integers a number of the program holds exactly, is stored
  and read back unchanged.
\<close>

theorem setPriority_validates:
  "(parseInt p = VNum n \<and> n \<le> 0 \<longrightarrow> setPriority this p = Inl PriorityError) \<and>
   (1 \<le> m \<and> m \<le> 2 ^ 53 - 1 \<longrightarrow>
      (\<exists>this'. setPriority this (VNum m) = Inr this' \<and> priority this' = VNum m
       \<and> conditions this' = conditions this \<and> event this' = event this
       \<and> engine this' = engine this))"
  by (simp add: setPriority_def)

theorem setPriority_validates_witness:
  "parseInt (VStr ''  -5px'') = VNum (- 5) \<and> (- 5 :: int) \<le> 0
   \<and> setPriority emptyRule (VStr ''  -5px'') = Inl PriorityError
   \<and> (1 :: int) \<le> 10 \<and> (10 :: int) \<le> 2 ^ 53 - 1
   \<and> (\<exists>this'. setPriority emptyRule (VNum 10) = Inr this' \<and> priority this' = VNum 10)"
proof -
  have p: "parseInt (VStr ''  -5px'') = VNum (- 5)"
    by (simp add: parseIntString_def isWhiteSpace_def digitValue_def)
  from setPriority_validates [of "VStr ''  -5px''" "- 5" emptyRule 10] p
  show ?thesis by auto
qed

text \<open>
  \<open>setConditions\<close>: a root with neither \<^verbatim>\<open>all\<close> nor \<^verbatim>\<open>any\<close> is refused, a boolean node
  is stored.
\<close>

theorem setConditions_requires_boolean_root:
  "setConditions this (Leaf p f ps opr v) = Inl ConditionsRootError \<and>
   setConditions this (Node q operator subConditions)
     = Inr (this\<lparr>conditions := Some (Node q operator subConditions)\<rparr>)"
  by (simp add: setConditions_def)

text \<open>
  \<open>setEvent\<close> stores the properties \<^verbatim>\<open>type\<close> and \<^verbatim>\<open>params\<close> of the event, those it has,
  and no other one.
\<close>

theorem setEvent_keeps_type_and_params:
  "event (setEvent this ev)
     = Some ((case map_of ev ''type'' of None \<Rightarrow> [] | Some v \<Rightarrow> [(''type'', v)]) @
             (case map_of ev ''params'' of None \<Rightarrow> [] | Some v \<Rightarrow> [(''params'', v)])) \<and>
   event (setEvent this
       [(''type'', VStr ''x''), (''params'', VObj [(''a'', VNum 1)]), (''extra'', VStr ''y'')])
     = Some [(''type'', VStr ''x''), (''params'', VObj [(''a'', VNum 1)])]"
  by (simp add: setEvent_def only_def)

text \<open>
  Claim C4 fails at the priority \<open>0\<close> given to the constructor. Line 27 computes
  \<^verbatim>\<open>options.priority || 1\<close>, and \<open>0\<close> is falsy: the rule is built with priority 1 and no
  error is raised, while \<open>setPriority\<close> called with \<open>0\<close>, or with the string \<^verbatim>\<open>"0"\<close>,
  throws, as the constructor does for \<open>- 1\<close>.
\<close>

theorem constructor_priority_zero_defaults:
  "constructor (Some \<lparr>opt_conditions = None, opt_priority = VNum 0, opt_event = None\<rparr>)
     = Inr (emptyRule\<lparr>priority := VNum 1, event := Some [(''type'', VStr ''unknown'')]\<rparr>)
   \<and> setPriority emptyRule (VNum 0) = Inl PriorityError
   \<and> setPriority emptyRule (VStr ''0'') = Inl PriorityError
   \<and> constructor (Some \<lparr>opt_conditions = None, opt_priority = VNum (- 1), opt_event = None\<rparr>)
     = Inl PriorityError"
  by (simp add: constructor_def setPriority_def setEvent_def only_def emptyRule_def
      parseIntString_def isWhiteSpace_def digitValue_def)

end
